theory Spec2Isabelle
  imports Complex_Main
begin

section \<open>The inference worker \<open>runpod_worker/handler.py\<close>\<close>

text \<open>
  The worker loads a model, a processor and a label list once (\<open>load_model\<close>) and then
  answers each request with \<open>handler\<close>. The model, the processor, the base64 and image
  decoders and the file system belong to libraries; they enter the development as the
  fields of a record of external operations, each of which either raises an exception or
  returns a value. Tensor entries and Python floats are read as real numbers.
\<close>

subsection \<open>Python strings and values\<close>

text \<open>A Python \<open>str\<close> is a sequence of Unicode code points.\<close>

type_synonym pystr = "nat list"

definition lit :: "string \<Rightarrow> pystr" where
  "lit s = map of_char s"

text \<open>The code points for which \<open>str.isspace\<close> holds; \<open>str.strip()\<close> removes them at both ends.\<close>

definition is_space :: "nat \<Rightarrow> bool" where
  "is_space c \<longleftrightarrow>
     (9 \<le> c \<and> c \<le> 13) \<or> (28 \<le> c \<and> c \<le> 32) \<or> c = 133 \<or> c = 160 \<or> c = 5760 \<or>
     (8192 \<le> c \<and> c \<le> 8202) \<or> c = 8232 \<or> c = 8233 \<or> c = 8239 \<or> c = 8287 \<or> c = 12288"

definition strip :: "pystr \<Rightarrow> pystr" where
  "strip s = rev (dropWhile is_space (rev (dropWhile is_space s)))"

text \<open>\<open>str(n)\<close> for a non-negative integer: its decimal digits.\<close>

fun str_nat :: "nat \<Rightarrow> pystr" where
  "str_nat n = (if n < 10 then [48 + n] else str_nat (n div 10) @ [48 + n mod 10])"

declare str_nat.simps [simp del]

text \<open>The values a decoded JSON request is made of; an object keeps its fields in order.\<close>

datatype pyval =
    PNone
  | PBool bool
  | PInt int
  | PFloat real
  | PStr pystr
  | PList "pyval list"
  | PDict "(pystr \<times> pyval) list"

subsection \<open>Exceptions\<close>

text \<open>
  Every constructor stands for an instance of a subclass of \<open>Exception\<close>, with the
  text that \<open>str(e)\<close> gives (for \<open>KeyError\<close>, the missing key). \<open>LibraryError\<close> is
  whatever an external operation raised.
\<close>

datatype exn =
    KeyError pystr
  | TypeError pystr
  | AttributeError pystr
  | IndexError pystr
  | LibraryError pystr

text \<open>
  \<open>str\<close> of a \<open>KeyError\<close> is the \<open>repr\<close> of the key; the keys looked up here
  (\<open>input\<close>, \<open>image_base64\<close>) need no escaping, so it is the key between quotes.
\<close>

definition quoted :: "pystr \<Rightarrow> pystr" where
  "quoted s = [39] @ s @ [39]"

fun str_exn :: "exn \<Rightarrow> pystr" where
  "str_exn (KeyError k) = quoted k"
| "str_exn (TypeError m) = m"
| "str_exn (AttributeError m) = m"
| "str_exn (IndexError m) = m"
| "str_exn (LibraryError m) = m"

text \<open>Sequencing inside a \<open>try\<close> block: the first exception ends the block.\<close>

definition try_bind :: "exn + 'a \<Rightarrow> ('a \<Rightarrow> exn + 'b) \<Rightarrow> exn + 'b" where
  "try_bind m f = (case m of Inl e \<Rightarrow> Inl e | Inr x \<Rightarrow> f x)"

text \<open>\<open>v[key]\<close> with a string key.\<close>

fun subscript :: "pyval \<Rightarrow> pystr \<Rightarrow> exn + pyval" where
  "subscript (PDict kvs) key =
     (case map_of kvs key of None \<Rightarrow> Inl (KeyError key) | Some v \<Rightarrow> Inr v)"
| "subscript (PList vs) key =
     Inl (TypeError (lit ''list indices must be integers or slices, not str''))"
| "subscript (PStr s) key =
     Inl (TypeError (lit ''string indices must be integers, not '' @ quoted (lit ''str'')))"
| "subscript PNone key = Inl (TypeError (quoted (lit ''NoneType'') @ lit '' object is not subscriptable''))"
| "subscript (PBool b) key = Inl (TypeError (quoted (lit ''bool'') @ lit '' object is not subscriptable''))"
| "subscript (PInt i) key = Inl (TypeError (quoted (lit ''int'') @ lit '' object is not subscriptable''))"
| "subscript (PFloat x) key = Inl (TypeError (quoted (lit ''float'') @ lit '' object is not subscriptable''))"

subsection \<open>Numeric routines\<close>

text \<open>\<open>tensor.softmax\<close> along one row.\<close>

definition softmax :: "real list \<Rightarrow> real list" where
  "softmax xs = map (\<lambda>x. exp x / sum_list (map exp xs)) xs"

text \<open>
  \<open>tensor.argsort(descending=True)\<close>: the positions of the row, largest entry first.
  Among equal entries the library promises no order; here they keep their positions' order.
\<close>

definition argsort_desc :: "real list \<Rightarrow> nat list" where
  "argsort_desc ps = sort_key (\<lambda>i. - (ps ! i)) [0..<length ps]"

text \<open>\<open>round(x, ndigits)\<close> on a float: to the nearest multiple of \<open>10^-ndigits\<close>, a tie to the even one.\<close>

definition round_half_even :: "real \<Rightarrow> int" where
  "round_half_even x =
     (let f = \<lfloor>x\<rfloor>; d = x - of_int f
      in if d < 1 / 2 then f else if 1 / 2 < d then f + 1 else if even f then f else f + 1)"

definition py_round :: "real \<Rightarrow> nat \<Rightarrow> real" where
  "py_round x ndigits = of_int (round_half_even (x * 10 ^ ndigits)) / 10 ^ ndigits"

subsection \<open>Globals and external operations\<close>

text \<open>
  The module's globals \<open>model\<close>, \<open>processor\<close> and \<open>labels\<close> (\<open>None\<close>, \<open>None\<close> and
  \<open>[]\<close> until \<open>load_model\<close> has run), and the lines printed so far.
\<close>

record ('mdl, 'prc) state =
  model :: "'mdl option"
  processor :: "'prc option"
  labels :: "pystr list"
  stdout :: "pystr list"

definition initial_state :: "('mdl, 'prc) state" where
  "initial_state = \<lparr>model = None, processor = None, labels = [], stdout = []\<rparr>"

text \<open>
  The library operations the module calls. \<open>run_model\<close> stands for lines 59 to 65 of the
  handler: the inputs are moved to the model's device, the model is applied under
  \<open>no_grad\<close>, and \<open>logits_per_image\<close> is read, a matrix with one row per image.
\<close>

record ('mdl, 'prc, 'img, 'inp) externals =
  AutoModel_from_pretrained :: "pystr \<Rightarrow> exn + 'mdl"
  AutoProcessor_from_pretrained :: "pystr \<Rightarrow> exn + 'prc"
  cuda_is_available :: bool
  model_to :: "'mdl \<Rightarrow> pystr \<Rightarrow> exn + 'mdl"
  model_eval :: "'mdl \<Rightarrow> 'mdl"
  open_readlines :: "pystr \<Rightarrow> exn + pystr list"
  b64decode :: "pyval \<Rightarrow> exn + nat list"
  image_open_rgb :: "nat list \<Rightarrow> exn + 'img"
  call_processor :: "'prc \<Rightarrow> pystr list \<Rightarrow> 'img \<Rightarrow> exn + 'inp"
  run_model :: "'mdl \<Rightarrow> 'inp \<Rightarrow> exn + real list list"

subsection \<open>\<open>load_model\<close>\<close>

text \<open>The list comprehension of line 33 over the lines that \<open>readlines\<close> returned.\<close>

definition read_labels :: "pystr list \<Rightarrow> pystr list" where
  "read_labels lines = map strip (filter (\<lambda>line. strip line \<noteq> []) lines)"

definition load_model ::
  "('mdl, 'prc, 'img, 'inp) externals \<Rightarrow> ('mdl, 'prc) state \<Rightarrow> exn + ('mdl, 'prc) state" where
  "load_model ext s =
     (let out1 = stdout s @ [lit ''Loading SigLIP model...''];
          model_name = lit ''google/siglip-base-patch16-224''
      in try_bind (AutoModel_from_pretrained ext model_name) (\<lambda>m.
         try_bind (AutoProcessor_from_pretrained ext model_name) (\<lambda>p.
         let device = (if cuda_is_available ext then lit ''cuda'' else lit ''cpu'')
         in try_bind (model_to ext m device) (\<lambda>m'.
            let m'' = model_eval ext m';
                out2 = out1 @ [lit ''Model loaded on '' @ device, lit ''Loading labels...'']
            in try_bind (open_readlines ext (lit ''labels.txt'')) (\<lambda>lines.
               let ls = read_labels lines
               in Inr \<lparr>model = Some m'', processor = Some p, labels = ls,
                       stdout = out2 @ [lit ''Loaded '' @ str_nat (length ls) @ lit '' labels'']\<rparr>)))))"

subsection \<open>\<open>handler\<close>\<close>

text \<open>One entry of the answer, \<open>{"label": ..., "score": ...}\<close>.\<close>

record result =
  label :: pystr
  score :: real

datatype response = Results "result list" | ErrorObj pystr

definition prompt :: "pystr \<Rightarrow> pystr" where
  "prompt l = lit ''a photo of '' @ l"

definition first_row :: "real list list \<Rightarrow> exn + real list" where
  "first_row rows =
     (case rows of
        [] \<Rightarrow> Inl (IndexError (lit ''index 0 is out of bounds for dimension 0 with size 0''))
      | r # _ \<Rightarrow> Inr r)"

text \<open>Lines 46 to 66: from the request to the probabilities of the first image.\<close>

definition classify_probs ::
  "('mdl, 'prc, 'img, 'inp) externals \<Rightarrow> ('mdl, 'prc) state \<Rightarrow> pyval \<Rightarrow> exn + real list" where
  "classify_probs ext s event =
     try_bind (subscript event (lit ''input'')) (\<lambda>inp.
     try_bind (subscript inp (lit ''image_base64'')) (\<lambda>image_base64.
     try_bind (b64decode ext image_base64) (\<lambda>image_bytes.
     try_bind (image_open_rgb ext image_bytes) (\<lambda>image.
     let text_inputs = map prompt (labels s)
     in try_bind (case processor s of
                    None \<Rightarrow> Inl (TypeError (quoted (lit ''NoneType'') @ lit '' object is not callable''))
                  | Some p \<Rightarrow> call_processor ext p text_inputs image) (\<lambda>inputs.
        try_bind (case model s of
                    None \<Rightarrow> Inl (AttributeError
                                   (quoted (lit ''NoneType'') @ lit '' object has no attribute ''
                                     @ quoted (lit ''parameters'')))
                  | Some m \<Rightarrow> run_model ext m inputs) (\<lambda>logits_per_image.
        first_row (map softmax logits_per_image)))))))"

text \<open>
  Lines 70 to 73: the comprehension over the chosen positions. \<open>labels[idx]\<close> raises
  \<open>IndexError\<close> beyond the end of the list; \<open>probs[idx]\<close> is in range, \<open>idx\<close> being a
  position of \<open>probs\<close>.
\<close>

fun build_results :: "pystr list \<Rightarrow> real list \<Rightarrow> nat list \<Rightarrow> exn + result list" where
  "build_results ls probs [] = Inr []"
| "build_results ls probs (idx # rest) =
     (if idx < length ls
      then try_bind (build_results ls probs rest) (\<lambda>rs.
             Inr (\<lparr>label = ls ! idx, score = py_round (probs ! idx) 4\<rparr> # rs))
      else Inl (IndexError (lit ''list index out of range'')))"

text \<open>Lines 69 to 73.\<close>

definition top5_results :: "pystr list \<Rightarrow> real list \<Rightarrow> exn + result list" where
  "top5_results ls probs = build_results ls probs (take 5 (argsort_desc probs))"

text \<open>The body of the \<open>try\<close> block.\<close>

definition handler_body ::
  "('mdl, 'prc, 'img, 'inp) externals \<Rightarrow> ('mdl, 'prc) state \<Rightarrow> pyval \<Rightarrow> exn + result list" where
  "handler_body ext s event = try_bind (classify_probs ext s event) (top5_results (labels s))"

text \<open>
  The handler: the results of the body, or, for any exception, a printed line and the
  error object. No global is assigned.
\<close>

definition handler ::
  "('mdl, 'prc, 'img, 'inp) externals \<Rightarrow> ('mdl, 'prc) state \<Rightarrow> pyval
     \<Rightarrow> response \<times> ('mdl, 'prc) state" where
  "handler ext s event =
     (case handler_body ext s event of
        Inr results \<Rightarrow> (Results results, s)
      | Inl e \<Rightarrow> (ErrorObj (str_exn e),
                 s\<lparr>stdout := stdout s @ [lit ''Error in handler: '' @ str_exn e]\<rparr>))"

subsection \<open>The worker\<close>

text \<open>The host loop started on line 88 calls the handler once for each request, in turn.\<close>

fun serve ::
  "('mdl, 'prc, 'img, 'inp) externals \<Rightarrow> ('mdl, 'prc) state \<Rightarrow> pyval list
     \<Rightarrow> response list \<times> ('mdl, 'prc) state" where
  "serve ext s [] = ([], s)"
| "serve ext s (event # events) =
     (case handler ext s event of
        (r, s') \<Rightarrow> (case serve ext s' events of (rs, s'') \<Rightarrow> (r # rs, s'')))"

text \<open>Lines 83 to 88: the module's top level.\<close>

definition worker ::
  "('mdl, 'prc, 'img, 'inp) externals \<Rightarrow> pyval list \<Rightarrow> exn + response list \<times> ('mdl, 'prc) state" where
  "worker ext events =
     try_bind (load_model ext (initial_state\<lparr>stdout := [lit ''Starting Runpod worker...'']\<rparr>))
       (\<lambda>s. Inr (serve ext (s\<lparr>stdout := stdout s @ [lit ''Worker ready!'']\<rparr>) events))"

subsection \<open>A stub environment\<close>

text \<open>
  One instance of the external operations, for running the definitions on concrete
  requests: the file has the given lines, the decoder accepts the base64 text of the PNG
  signature, and the model returns the given logits.
\<close>

definition stub_externals ::
  "pystr list \<Rightarrow> real list list \<Rightarrow> (unit, unit, nat list, unit) externals" where
  "stub_externals lines logits =
     \<lparr>AutoModel_from_pretrained = (\<lambda>name. Inr ()),
      AutoProcessor_from_pretrained = (\<lambda>name. Inr ()),
      cuda_is_available = False,
      model_to = (\<lambda>m device. Inr m),
      model_eval = (\<lambda>m. m),
      open_readlines = (\<lambda>name. Inr lines),
      b64decode = (\<lambda>v. if v = PStr (lit ''iVBORw0KGgo='')
                          then Inr [137, 80, 78, 71, 13, 10, 26, 10]
                          else Inl (LibraryError (lit ''Incorrect padding''))),
      image_open_rgb = (\<lambda>bytes. Inr bytes),
      call_processor = (\<lambda>p texts image. Inr ()),
      run_model = (\<lambda>m inputs. Inr logits)\<rparr>"

definition stub_state :: "pystr list \<Rightarrow> (unit, unit) state" where
  "stub_state ls = \<lparr>model = Some (), processor = Some (), labels = ls, stdout = []\<rparr>"

definition stub_event :: pyval where
  "stub_event = PDict [(lit ''input'', PDict [(lit ''image_base64'', PStr (lit ''iVBORw0KGgo=''))])]"

text \<open>Three runs: the state after loading, the logits the model returns, the expected answer.\<close>

abbreviation pets_state :: "(unit, unit) state" where
  "pets_state \<equiv> stub_state [lit ''cat'', lit ''dog'', lit ''bird'']"

abbreviation run_a_externals :: "(unit, unit, nat list, unit) externals" where
  "run_a_externals \<equiv> stub_externals [] [[ln 33336, ln 33334, ln 33330]]"

abbreviation run_a_results :: "result list" where
  "run_a_results \<equiv>
     [\<lparr>label = lit ''cat'', score = 3334 / 10000\<rparr>,
      \<lparr>label = lit ''dog'', score = 3333 / 10000\<rparr>,
      \<lparr>label = lit ''bird'', score = 3333 / 10000\<rparr>]"

abbreviation run_b_externals :: "(unit, unit, nat list, unit) externals" where
  "run_b_externals \<equiv> stub_externals [] [[ln 33328, ln 33336, ln 33336]]"

abbreviation run_b_results :: "result list" where
  "run_b_results \<equiv>
     [\<lparr>label = lit ''dog'', score = 3334 / 10000\<rparr>,
      \<lparr>label = lit ''bird'', score = 3334 / 10000\<rparr>,
      \<lparr>label = lit ''cat'', score = 3333 / 10000\<rparr>]"

abbreviation six_state :: "(unit, unit) state" where
  "six_state \<equiv> stub_state (map lit [''a'', ''b'', ''c'', ''d'', ''e'', ''f''])"

abbreviation run_six_externals :: "(unit, unit, nat list, unit) externals" where
  "run_six_externals \<equiv> stub_externals [] [[0, 0, 0, 0, 0, 0]]"

abbreviation run_six_results :: "result list" where
  "run_six_results \<equiv>
     map (\<lambda>l. \<lparr>label = lit l, score = 1667 / 10000\<rparr>) [''a'', ''b'', ''c'', ''d'', ''e'']"

text \<open>A label file with a blank line and padded names, and the state \<open>load_model\<close> reaches.\<close>

abbreviation run_c_lines :: "pystr list" where
  "run_c_lines \<equiv> [lit ''cat'' @ [10], [10], lit '' dog '' @ [10]]"

abbreviation run_c_state :: "(unit, unit) state" where
  "run_c_state \<equiv>
     \<lparr>model = Some (), processor = Some (), labels = [lit ''cat'', lit ''dog''],
      stdout = [lit ''Loading SigLIP model...'', lit ''Model loaded on cpu'',
                lit ''Loading labels...'', lit ''Loaded 2 labels'']\<rparr>"

text \<open>A whole run of the worker: the load, a good request, and a request without \<open>input\<close>.\<close>

abbreviation run_d_lines :: "pystr list" where
  "run_d_lines \<equiv> [lit ''cat'' @ [10], lit ''dog'' @ [10], lit ''bird'' @ [10]]"

abbreviation run_d_externals :: "(unit, unit, nat list, unit) externals" where
  "run_d_externals \<equiv> stub_externals run_d_lines [[ln 33336, ln 33334, ln 33330]]"

abbreviation run_d_loaded :: "(unit, unit) state" where
  "run_d_loaded \<equiv>
     \<lparr>model = Some (), processor = Some (), labels = [lit ''cat'', lit ''dog'', lit ''bird''],
      stdout = [lit ''Starting Runpod worker...'', lit ''Loading SigLIP model...'',
                lit ''Model loaded on cpu'', lit ''Loading labels...'', lit ''Loaded 3 labels'']\<rparr>"

abbreviation run_d_final :: "(unit, unit) state" where
  "run_d_final \<equiv>
     \<lparr>model = Some (), processor = Some (), labels = [lit ''cat'', lit ''dog'', lit ''bird''],
      stdout = [lit ''Starting Runpod worker...'', lit ''Loading SigLIP model...'',
                lit ''Model loaded on cpu'', lit ''Loading labels...'', lit ''Loaded 3 labels'',
                lit ''Worker ready!'', lit ''Error in handler: '' @ quoted (lit ''input'')]\<rparr>"

section \<open>Properties of the numeric routines\<close>

subsection \<open>Rounding\<close>

lemma round_half_even_cases:
  "round_half_even x = \<lfloor>x\<rfloor> \<or> round_half_even x = \<lfloor>x\<rfloor> + 1"
  by (simp add: round_half_even_def Let_def)

lemma round_half_even_lower: "x - 1 / 2 \<le> of_int (round_half_even x)"
  unfolding round_half_even_def Let_def by (auto; linarith)

lemma round_half_even_upper: "of_int (round_half_even x) \<le> x + 1 / 2"
  unfolding round_half_even_def Let_def by (auto; linarith)

lemma round_half_even_of_int: "round_half_even (of_int n) = n"
  by (simp add: round_half_even_def Let_def)

lemma round_half_even_mono:
  assumes "x \<le> y"
  shows "round_half_even x \<le> round_half_even y"
proof (cases "\<lfloor>x\<rfloor> = \<lfloor>y\<rfloor>")
  case True
  then show ?thesis
    using assms unfolding round_half_even_def Let_def by auto
next
  case False
  with assms have "\<lfloor>x\<rfloor> < \<lfloor>y\<rfloor>"
    using floor_mono [of x y] by linarith
  then have "\<lfloor>x\<rfloor> + 1 \<le> \<lfloor>y\<rfloor>" by simp
  moreover have "round_half_even x \<le> \<lfloor>x\<rfloor> + 1"
    using round_half_even_cases [of x] by auto
  moreover have "\<lfloor>y\<rfloor> \<le> round_half_even y"
    using round_half_even_cases [of y] by auto
  ultimately show ?thesis by linarith
qed

lemma py_round_mono: "x \<le> y \<Longrightarrow> py_round x n \<le> py_round y n"
  unfolding py_round_def
  by (intro divide_right_mono) (simp_all add: round_half_even_mono mult_right_mono)

lemma py_round_zero: "py_round 0 n = 0"
  by (simp add: py_round_def round_half_even_def)

lemma py_round_one: "py_round 1 n = 1"
proof -
  have "round_half_even (10 ^ n) = 10 ^ n"
    using round_half_even_of_int [of "10 ^ n"] by simp
  then show ?thesis by (simp add: py_round_def)
qed

lemma py_round_unit: "0 \<le> x \<Longrightarrow> x \<le> 1 \<Longrightarrow> 0 \<le> py_round x n \<and> py_round x n \<le> 1"
  using py_round_mono [of 0 x n] py_round_mono [of x 1 n]
  by (simp add: py_round_zero py_round_one)

lemma py_round_upper: "py_round x n \<le> x + 1 / (2 * 10 ^ n)"
proof -
  have "of_int (round_half_even (x * 10 ^ n)) \<le> x * 10 ^ n + 1 / 2"
    by (rule round_half_even_upper)
  then have "of_int (round_half_even (x * 10 ^ n)) / 10 ^ n \<le> (x * 10 ^ n + 1 / 2) / 10 ^ n"
    by (rule divide_right_mono) simp
  then show ?thesis by (simp add: py_round_def add_divide_distrib)
qed

lemma py_round_lower: "x - 1 / (2 * 10 ^ n) \<le> py_round x n"
proof -
  have "x * 10 ^ n - 1 / 2 \<le> of_int (round_half_even (x * 10 ^ n))"
    by (rule round_half_even_lower)
  then have "(x * 10 ^ n - 1 / 2) / 10 ^ n \<le> of_int (round_half_even (x * 10 ^ n)) / 10 ^ n"
    by (rule divide_right_mono) simp
  then show ?thesis by (simp add: py_round_def diff_divide_distrib)
qed

lemma py_round_4_near: "\<bar>py_round x 4 - x\<bar> \<le> 5 / 100000"
proof -
  have a: "py_round x 4 \<le> x + 5 / 100000"
    using py_round_upper [of x 4] by simp
  have b: "x - 5 / 100000 \<le> py_round x 4"
    using py_round_lower [of x 4] by simp
  from a b show ?thesis
    unfolding abs_le_iff by (intro conjI) linarith+
qed

subsection \<open>Softmax and argsort\<close>

lemma sum_list_exp_nonneg: "0 \<le> sum_list (map exp (xs :: real list))"
  by (rule sum_list_nonneg) auto

lemma sum_list_exp_pos: "xs \<noteq> [] \<Longrightarrow> 0 < sum_list (map exp (xs :: real list))"
  by (cases xs) (simp_all add: add_pos_nonneg sum_list_exp_nonneg)

lemma sum_list_map_divide: "sum_list (map (\<lambda>x. f x / c) xs) = sum_list (map f xs) / (c::real)"
  by (induction xs) (simp_all add: add_divide_distrib)


lemma softmax_pos:
  assumes "p \<in> set (softmax xs)"
  shows "0 < p"
proof -
  from assms obtain x where x: "x \<in> set xs" and p: "p = exp x / sum_list (map exp xs)"
    by (auto simp: softmax_def)
  then have "xs \<noteq> []" by auto
  then show ?thesis using p by (simp add: sum_list_exp_pos)
qed

lemma sum_list_softmax: "xs \<noteq> [] \<Longrightarrow> sum_list (softmax xs) = 1"
proof -
  assume ne: "xs \<noteq> []"
  have "sum_list (softmax xs) = sum_list (map exp xs) / sum_list (map exp xs)"
    unfolding softmax_def by (rule sum_list_map_divide)
  then show ?thesis using sum_list_exp_pos [OF ne] by simp
qed

lemma sum_list_softmax_le: "sum_list (softmax xs) \<le> 1"
proof (cases "xs = []")
  case True
  then show ?thesis by (simp add: softmax_def)
next
  case False
  then show ?thesis by (simp add: sum_list_softmax)
qed

lemma member_le_sum_list_real:
  "(\<And>y. y \<in> set ys \<Longrightarrow> 0 \<le> (y::real)) \<Longrightarrow> x \<in> set ys \<Longrightarrow> x \<le> sum_list ys"
  by (induction ys) (auto simp: add_increasing add_increasing2 sum_list_nonneg)

lemma softmax_le_one:
  assumes "p \<in> set (softmax xs)"
  shows "p \<le> 1"
proof -
  have "p \<le> sum_list (softmax xs)"
    using assms softmax_pos [of _ xs] by (intro member_le_sum_list_real) (auto intro: less_imp_le)
  then show ?thesis using sum_list_softmax_le [of xs] by linarith
qed

lemma set_argsort_desc: "set (argsort_desc ps) = {0..<length ps}"
  by (simp add: argsort_desc_def)

lemma distinct_argsort_desc: "distinct (argsort_desc ps)"
  by (simp add: argsort_desc_def)

lemma length_argsort_desc: "length (argsort_desc ps) = length ps"
  by (simp add: argsort_desc_def)

lemma argsort_desc_sorted:
  assumes "i \<le> j" "j < length ps"
  shows "ps ! (argsort_desc ps ! j) \<le> ps ! (argsort_desc ps ! i)"
proof -
  have "sorted (map (\<lambda>i. - (ps ! i)) (argsort_desc ps))"
    by (simp add: argsort_desc_def)
  from sorted_nth_mono [OF this, of i j] assms show ?thesis
    by (simp add: length_argsort_desc)
qed

lemma sum_list_nth_subset:
  assumes "distinct idxs" "set idxs \<subseteq> {0..<length ps}" "\<And>p. p \<in> set ps \<Longrightarrow> 0 \<le> (p::real)"
  shows "sum_list (map (\<lambda>i. ps ! i) idxs) \<le> sum_list ps"
proof -
  have "sum_list (map (\<lambda>i. ps ! i) idxs) = sum (\<lambda>i. ps ! i) (set idxs)"
    using assms(1) by (simp add: sum_list_distinct_conv_sum_set)
  also have "\<dots> \<le> sum (\<lambda>i. ps ! i) {0..<length ps}"
    using assms(2,3) by (intro sum_mono2) auto
  also have "\<dots> = sum_list ps"
    by (simp add: sum_list_sum_nth)
  finally show ?thesis .
qed

section \<open>The handler, step by step\<close>

lemma try_bind_Inr_iff:
  "try_bind m f = Inr y \<longleftrightarrow> (\<exists>x. m = Inr x \<and> f x = Inr y)"
  by (cases m) (simp_all add: try_bind_def)

lemma build_results_Inr_iff:
  "build_results ls probs idxs = Inr rs \<longleftrightarrow>
     (\<forall>i \<in> set idxs. i < length ls) \<and>
     rs = map (\<lambda>i. \<lparr>label = ls ! i, score = py_round (probs ! i) 4\<rparr>) idxs"
  by (induction idxs arbitrary: rs) (auto simp: try_bind_Inr_iff)

lemma handler_Results_iff:
  "handler ext s event = (Results rs, s') \<longleftrightarrow> handler_body ext s event = Inr rs \<and> s' = s"
  by (auto simp: handler_def split: sum.splits)

lemma handler_body_Inr_iff:
  "handler_body ext s event = Inr rs \<longleftrightarrow>
     (\<exists>probs. classify_probs ext s event = Inr probs \<and>
        (\<forall>i \<in> set (take 5 (argsort_desc probs)). i < length (labels s)) \<and>
        rs = map (\<lambda>i. \<lparr>label = labels s ! i, score = py_round (probs ! i) 4\<rparr>)
               (take 5 (argsort_desc probs)))"
  by (simp add: handler_body_def try_bind_Inr_iff top5_results_def build_results_Inr_iff)

lemma first_row_Inr_iff:
  "first_row (map softmax rows) = Inr probs \<longleftrightarrow> (\<exists>row rest. rows = row # rest \<and> probs = softmax row)"
  by (cases rows) (auto simp: first_row_def)

lemma classify_probs_Inr_iff:
  "classify_probs ext s event = Inr probs \<longleftrightarrow>
     (\<exists>inp image_base64 image_bytes image p inputs m row rest.
        subscript event (lit ''input'') = Inr inp \<and>
        subscript inp (lit ''image_base64'') = Inr image_base64 \<and>
        b64decode ext image_base64 = Inr image_bytes \<and>
        image_open_rgb ext image_bytes = Inr image \<and>
        processor s = Some p \<and>
        call_processor ext p (map prompt (labels s)) image = Inr inputs \<and>
        model s = Some m \<and>
        run_model ext m inputs = Inr (row # rest) \<and>
        probs = softmax row)"
  unfolding classify_probs_def Let_def try_bind_Inr_iff first_row_Inr_iff
  by (cases "processor s"; cases "model s") auto

lemma classify_probs_InrD:
  assumes "classify_probs ext s event = Inr probs"
  shows "\<exists>m inputs row rest. model s = Some m \<and> run_model ext m inputs = Inr (row # rest) \<and>
           probs = softmax row"
  using assms unfolding classify_probs_Inr_iff by blast

lemma classify_probs_unit:
  assumes "classify_probs ext s event = Inr probs" "p \<in> set probs"
  shows "0 < p \<and> p \<le> 1"
  using classify_probs_InrD [OF assms(1)] assms(2) softmax_pos softmax_le_one by blast

lemma classify_probs_sum:
  assumes "classify_probs ext s event = Inr probs"
  shows "sum_list probs \<le> 1"
  using classify_probs_InrD [OF assms(1)] sum_list_softmax_le by blast

lemma top_k_of_sorted:
  assumes "distinct perm" "set perm = {0..<n}" "length ps = n"
    and sorted: "\<And>i j. i \<le> j \<Longrightarrow> j < n \<Longrightarrow> ps ! (perm ! j) \<le> (ps ! (perm ! i) :: real)"
    and a: "a \<in> set (take k perm)" and b: "b < n" "b \<notin> set (take k perm)"
  shows "ps ! b \<le> ps ! a"
proof -
  have len: "length perm = n"
    using assms(1,2) distinct_card [of perm] by simp
  from a obtain i where i: "i < length (take k perm)" "a = take k perm ! i"
    by (auto simp: in_set_conv_nth)
  then have i': "i < k" "i < n" "a = perm ! i" using len by simp_all
  from b assms(2) have "b \<in> set perm" by simp
  then obtain j where j: "j < length perm" "b = perm ! j"
    by (auto simp: in_set_conv_nth)
  have "\<not> j < k"
  proof
    assume "j < k"
    with j have "b = take k perm ! j" "j < length (take k perm)" by simp_all
    then have "b \<in> set (take k perm)" by (metis nth_mem)
    with b(2) show False by contradiction
  qed
  with i' have "i \<le> j" by simp
  with sorted [of i j] j len show ?thesis by (simp add: i')
qed

lemma handler_ResultsD:
  assumes "handler ext s event = (Results rs, s')"
  shows "\<exists>probs. classify_probs ext s event = Inr probs \<and>
           rs = map (\<lambda>i. \<lparr>label = labels s ! i, score = py_round (probs ! i) 4\<rparr>)
                  (take 5 (argsort_desc probs))"
  using assms by (auto simp: handler_Results_iff handler_body_Inr_iff)

lemma top5_indices_facts:
  "distinct (take 5 (argsort_desc ps))"
  "set (take 5 (argsort_desc ps)) \<subseteq> {0..<length ps}"
  "length (take 5 (argsort_desc ps)) \<le> 5"
  using set_take_subset [of 5 "argsort_desc ps"]
  by (simp_all add: distinct_argsort_desc set_argsort_desc)

lemma sum_list_map_add_const:
  "sum_list (map (\<lambda>i. f i + (c::real)) xs) = sum_list (map f xs) + real (length xs) * c"
  by (induction xs) (simp_all add: algebra_simps)

lemma handler_fst:
  "fst (handler ext s event) =
     (case handler_body ext s event of Inl e \<Rightarrow> ErrorObj (str_exn e) | Inr rs \<Rightarrow> Results rs)"
  by (simp add: handler_def split: sum.splits)

lemma handler_body_Inl_classify:
  "classify_probs ext s event = Inl e \<Longrightarrow> handler_body ext s event = Inl e"
  by (simp add: handler_body_def try_bind_def)

lemma handler_globals:
  "model (snd (handler ext s event)) = model s"
  "processor (snd (handler ext s event)) = processor s"
  "labels (snd (handler ext s event)) = labels s"
  by (simp_all add: handler_def split: sum.splits)

lemma serve_globals:
  "model (snd (serve ext s events)) = model s \<and>
   processor (snd (serve ext s events)) = processor s \<and>
   labels (snd (serve ext s events)) = labels s"
proof (induction events arbitrary: s)
  case Nil
  show ?case by simp
next
  case (Cons event events)
  obtain r s1 where h: "handler ext s event = (r, s1)" by (cases "handler ext s event")
  obtain rs s2 where sv: "serve ext s1 events = (rs, s2)" by (cases "serve ext s1 events")
  from Cons.IH [of s1] sv have "model s2 = model s1" "processor s2 = processor s1"
    "labels s2 = labels s1" by simp_all
  moreover from handler_globals [of ext s event] h
  have "model s1 = model s" "processor s1 = processor s" "labels s1 = labels s" by simp_all
  ultimately show ?case by (simp add: h sv)
qed

lemma load_model_Inr_iff:
  "load_model ext s = Inr s' \<longleftrightarrow>
     (\<exists>m p m' lines.
        AutoModel_from_pretrained ext (lit ''google/siglip-base-patch16-224'') = Inr m \<and>
        AutoProcessor_from_pretrained ext (lit ''google/siglip-base-patch16-224'') = Inr p \<and>
        model_to ext m (if cuda_is_available ext then lit ''cuda'' else lit ''cpu'') = Inr m' \<and>
        open_readlines ext (lit ''labels.txt'') = Inr lines \<and>
        s' = \<lparr>model = Some (model_eval ext m'), processor = Some p, labels = read_labels lines,
              stdout = stdout s @ [lit ''Loading SigLIP model...'',
                lit ''Model loaded on '' @ (if cuda_is_available ext then lit ''cuda'' else lit ''cpu''),
                lit ''Loading labels...'',
                lit ''Loaded '' @ str_nat (length (read_labels lines)) @ lit '' labels'']\<rparr>)"
  unfolding load_model_def Let_def try_bind_Inr_iff by auto

lemma strip_eq_Nil_iff: "strip l = [] \<longleftrightarrow> (\<forall>c \<in> set l. is_space c)"
proof
  assume "strip l = []"
  then have all: "\<forall>c \<in> set (dropWhile is_space l). is_space c"
    by (simp add: strip_def)
  have "dropWhile is_space l = []"
  proof (rule ccontr)
    assume ne: "dropWhile is_space l \<noteq> []"
    then have "\<not> is_space (hd (dropWhile is_space l))" by (rule hd_dropWhile)
    moreover from ne have "hd (dropWhile is_space l) \<in> set (dropWhile is_space l)" by simp
    ultimately show False using all by blast
  qed
  then show "\<forall>c \<in> set l. is_space c" by simp
next
  assume "\<forall>c \<in> set l. is_space c"
  then have d: "dropWhile is_space l = []" by simp
  show "strip l = []" unfolding strip_def d by simp
qed

lemma read_labels_nonempty_iff:
  "read_labels lines \<noteq> [] \<longleftrightarrow> (\<exists>l \<in> set lines. \<exists>c \<in> set l. \<not> is_space c)"
  by (auto simp: read_labels_def filter_empty_conv strip_eq_Nil_iff)

lemma read_labels_members: "l \<in> set (read_labels lines) \<Longrightarrow> l \<noteq> []"
  by (auto simp: read_labels_def)

subsection \<open>Concrete runs\<close>

lemma lit_eq_iff: "lit s = lit t \<longleftrightarrow> s = t"
  unfolding lit_def by (simp add: inj_on_def)

lemma stub_classify_probs:
  "classify_probs (stub_externals lines (row # rest)) (stub_state ls) stub_event = Inr (softmax row)"
  by (simp add: classify_probs_def stub_externals_def stub_state_def stub_event_def
      try_bind_def first_row_def lit_eq_iff)

lemmas top5_eval = top5_results_def softmax_def argsort_desc_def upt_rec py_round_def
  round_half_even_def Let_def try_bind_def

lemma top5_run_a:
  "top5_results [lit ''cat'', lit ''dog'', lit ''bird''] (softmax [ln 33336, ln 33334, ln 33330]) =
     Inr [\<lparr>label = lit ''cat'', score = 3334 / 10000\<rparr>,
          \<lparr>label = lit ''dog'', score = 3333 / 10000\<rparr>,
          \<lparr>label = lit ''bird'', score = 3333 / 10000\<rparr>]"
  by (simp add: top5_eval)

lemma top5_run_b:
  "top5_results [lit ''cat'', lit ''dog'', lit ''bird''] (softmax [ln 33328, ln 33336, ln 33336]) =
     Inr [\<lparr>label = lit ''dog'', score = 3334 / 10000\<rparr>,
          \<lparr>label = lit ''bird'', score = 3334 / 10000\<rparr>,
          \<lparr>label = lit ''cat'', score = 3333 / 10000\<rparr>]"
  by (simp add: top5_eval)

lemma top5_run_six:
  "top5_results (map lit [''a'', ''b'', ''c'', ''d'', ''e'', ''f'']) (softmax [0, 0, 0, 0, 0, 0]) =
     Inr (map (\<lambda>l. \<lparr>label = lit l, score = 1667 / 10000\<rparr>) [''a'', ''b'', ''c'', ''d'', ''e''])"
  by (simp add: top5_eval)

lemma stub_state_sel:
  "model (stub_state ls) = Some ()" "processor (stub_state ls) = Some ()"
  "labels (stub_state ls) = ls" "stdout (stub_state ls) = []"
  by (simp_all add: stub_state_def)

lemma handler_stub:
  "handler (stub_externals lines (row # rest)) (stub_state ls) stub_event =
     (case top5_results ls (softmax row) of
        Inr results \<Rightarrow> (Results results, stub_state ls)
      | Inl e \<Rightarrow> (ErrorObj (str_exn e),
           (stub_state ls)\<lparr>stdout := [lit ''Error in handler: '' @ str_exn e]\<rparr>))"
  by (simp add: handler_def handler_body_def stub_classify_probs try_bind_def stub_state_sel split: sum.splits)

lemma stub_run_a:
  "handler run_a_externals pets_state stub_event = (Results run_a_results, pets_state)"
  by (simp only: handler_stub top5_run_a sum.case)

lemma stub_run_b:
  "handler run_b_externals pets_state stub_event = (Results run_b_results, pets_state)"
  by (simp only: handler_stub top5_run_b sum.case)

lemma stub_run_six:
  "handler run_six_externals six_state stub_event = (Results run_six_results, six_state)"
  by (simp only: handler_stub top5_run_six sum.case)

lemma str_nat_digit: "n < 10 \<Longrightarrow> str_nat n = [48 + n]"
  by (simp add: str_nat.simps)

lemma strip_examples:
  "strip [10] = []" "strip [32, 32, 10] = []"
  "strip (lit ''cat'' @ [10]) = lit ''cat''"
  "strip (lit '' dog '' @ [10]) = lit ''dog''"
  "strip (lit ''dog'' @ [10]) = lit ''dog''"
  "strip (lit ''bird'' @ [10]) = lit ''bird''"
  by (simp_all add: strip_def is_space_def lit_def)

lemma load_model_stub:
  "load_model (stub_externals lines logits) s =
     Inr \<lparr>model = Some (), processor = Some (), labels = read_labels lines,
          stdout = stdout s @ [lit ''Loading SigLIP model...'', lit ''Model loaded on cpu'',
            lit ''Loading labels...'',
            lit ''Loaded '' @ str_nat (length (read_labels lines)) @ lit '' labels'']\<rparr>"
  by (simp add: load_model_def stub_externals_def try_bind_def Let_def lit_def)

lemma load_model_run_c:
  "load_model (stub_externals [lit ''cat'' @ [10], [10], lit '' dog '' @ [10]] []) initial_state =
     Inr \<lparr>model = Some (), processor = Some (), labels = [lit ''cat'', lit ''dog''],
          stdout = [lit ''Loading SigLIP model...'', lit ''Model loaded on cpu'',
            lit ''Loading labels...'', lit ''Loaded 2 labels'']\<rparr>"
  by (simp add: load_model_stub read_labels_def strip_examples str_nat_digit initial_state_def)
     (simp add: lit_def)

lemma load_model_run_d:
  "load_model run_d_externals (initial_state\<lparr>stdout := [lit ''Starting Runpod worker...'']\<rparr>)
     = Inr run_d_loaded"
  by (simp add: load_model_stub read_labels_def strip_examples str_nat_digit initial_state_def)
     (simp add: lit_def)

lemma stub_classify_probs_any:
  "model s = Some () \<Longrightarrow> processor s = Some () \<Longrightarrow>
   classify_probs (stub_externals lines (row # rest)) s stub_event = Inr (softmax row)"
  by (simp add: classify_probs_def stub_externals_def stub_event_def
      try_bind_def first_row_def lit_eq_iff)

lemma stub_classify_probs_missing:
  "classify_probs (stub_externals lines logits) s (PDict []) = Inl (KeyError (lit ''input''))"
  by (simp add: classify_probs_def try_bind_def)

lemma worker_run_d:
  "worker run_d_externals [stub_event, PDict []] =
     Inr ([Results run_a_results, ErrorObj (quoted (lit ''input''))], run_d_final)"
  by (simp add: worker_def load_model_run_d try_bind_def handler_def handler_body_def
      stub_classify_probs_any stub_classify_probs_missing top5_run_a)

section \<open>The claims\<close>

text \<open>
  A successful invocation is one where \<open>handler\<close> returns \<open>Results rs\<close>, the list of
  results, and not \<open>ErrorObj msg\<close>, the error object.
\<close>

text \<open>
  C1: in a successful invocation the labels returned are those of the 5 largest softmax
  probabilities of the model's logits for the image, largest first: there is an ordering
  \<open>perm\<close> of all positions of the probability row by non-increasing probability such that
  the i-th result's label is the global label list at position \<open>perm ! i\<close>, for the first
  5 positions (all of them when the row is shorter); no position left out has a larger
  probability than one selected; and when the model returns one logit for each label and
  there are at most 5 labels, every label is returned.
\<close>

theorem handler_top5_labels:
  assumes "handler ext s event = (Results rs, s')"
  shows "\<exists>m inputs row rest probs perm.
           model s = Some m \<and> run_model ext m inputs = Inr (row # rest) \<and>
           probs = softmax row \<and> classify_probs ext s event = Inr probs \<and>
           distinct perm \<and> set perm = {0..<length probs} \<and>
           (\<forall>i j. i \<le> j \<and> j < length probs \<longrightarrow> probs ! (perm ! j) \<le> probs ! (perm ! i)) \<and>
           map label rs = map (\<lambda>i. labels s ! i) (take 5 perm) \<and>
           length rs = min 5 (length probs) \<and>
           (\<forall>a \<in> set (take 5 perm). \<forall>b < length probs.
              b \<notin> set (take 5 perm) \<longrightarrow> probs ! b \<le> probs ! a) \<and>
           (length probs = length (labels s) \<and> length (labels s) \<le> 5 \<longrightarrow>
              set (map label rs) = set (labels s))"
proof -
  from assms obtain probs where
    cp: "classify_probs ext s event = Inr probs" and
    rs: "rs = map (\<lambda>i. \<lparr>label = labels s ! i, score = py_round (probs ! i) 4\<rparr>)
               (take 5 (argsort_desc probs))"
    by (auto simp: handler_Results_iff handler_body_Inr_iff)
  from classify_probs_InrD [OF cp] obtain m inputs row rest where
    m: "model s = Some m" "run_model ext m inputs = Inr (row # rest)" "probs = softmax row"
    by blast
  let ?perm = "argsort_desc probs"
  have sorted: "\<And>i j. i \<le> j \<Longrightarrow> j < length probs \<Longrightarrow> probs ! (?perm ! j) \<le> probs ! (?perm ! i)"
    by (rule argsort_desc_sorted)
  have lab: "map label rs = map (\<lambda>i. labels s ! i) (take 5 ?perm)"
    by (simp add: rs comp_def)
  have len: "length rs = min 5 (length probs)"
    by (simp add: rs length_argsort_desc)
  have top: "\<forall>a \<in> set (take 5 ?perm). \<forall>b < length probs.
              b \<notin> set (take 5 ?perm) \<longrightarrow> probs ! b \<le> probs ! a"
    using top_k_of_sorted [OF distinct_argsort_desc set_argsort_desc refl sorted]
    by blast
  have all: "length probs = length (labels s) \<and> length (labels s) \<le> 5 \<longrightarrow>
              set (map label rs) = set (labels s)"
  proof
    assume h: "length probs = length (labels s) \<and> length (labels s) \<le> 5"
    then have "take 5 ?perm = ?perm" by (simp add: length_argsort_desc)
    then have "set (map label rs) = nth (labels s) ` {0..<length (labels s)}"
      using h by (simp add: lab set_argsort_desc)
    also have "\<dots> = set (labels s)"
      using nth_image [of "length (labels s)" "labels s"] by simp
    finally show "set (map label rs) = set (labels s)" .
  qed
  have sorted': "\<forall>i j. i \<le> j \<and> j < length probs \<longrightarrow> probs ! (?perm ! j) \<le> probs ! (?perm ! i)"
    using sorted by blast
  note body = conjI [OF m(1) conjI [OF m(2) conjI [OF m(3) conjI [OF cp
    conjI [OF distinct_argsort_desc conjI [OF set_argsort_desc conjI [OF sorted'
    conjI [OF lab conjI [OF len conjI [OF top all]]]]]]]]]]
  show ?thesis
    by (rule exI [of _ m], rule exI [of _ inputs], rule exI [of _ row], rule exI [of _ rest],
        rule exI [of _ probs], rule exI [of _ ?perm], rule body)
qed

theorem handler_top5_labels_witness:
  "handler run_a_externals pets_state stub_event = (Results run_a_results, pets_state) \<and>
   (\<exists>m inputs row rest probs perm.
           model pets_state = Some m \<and> run_model run_a_externals m inputs = Inr (row # rest) \<and>
           probs = softmax row \<and> classify_probs run_a_externals pets_state stub_event = Inr probs \<and>
           distinct perm \<and> set perm = {0..<length probs} \<and>
           (\<forall>i j. i \<le> j \<and> j < length probs \<longrightarrow> probs ! (perm ! j) \<le> probs ! (perm ! i)) \<and>
           map label run_a_results = map (\<lambda>i. labels pets_state ! i) (take 5 perm) \<and>
           length run_a_results = min 5 (length probs) \<and>
           (\<forall>a \<in> set (take 5 perm). \<forall>b < length probs.
              b \<notin> set (take 5 perm) \<longrightarrow> probs ! b \<le> probs ! a) \<and>
           (length probs = length (labels pets_state) \<and> length (labels pets_state) \<le> 5 \<longrightarrow>
              set (map label run_a_results) = set (labels pets_state)))"
  by (rule conjI [OF stub_run_a handler_top5_labels [OF stub_run_a]])

text \<open>
  C2: whenever the handler does not return an error object, the sequence it returns has at
  most 5 entries.
\<close>

theorem handler_length_le_5:
  assumes "handler ext s event = (Results rs, s')"
  shows "length rs \<le> 5"
  using assms by (auto simp: handler_Results_iff handler_body_Inr_iff)

text \<open>With six labels of equal probability the handler returns five entries.\<close>

theorem handler_length_le_5_witness:
  "handler run_six_externals six_state stub_event = (Results run_six_results, six_state) \<and>
   length run_six_results \<le> 5"
  by (rule conjI [OF stub_run_six handler_length_le_5 [OF stub_run_six]])

text \<open>
  C3: in a successful invocation the scores returned, that is the rounded ones, are in
  non-increasing order.
\<close>

theorem handler_scores_descending:
  assumes "handler ext s event = (Results rs, s')"
  shows "\<forall>i j. i < j \<and> j < length rs \<longrightarrow> score (rs ! j) \<le> score (rs ! i)"
proof (intro allI impI)
  fix i j assume ij: "i < j \<and> j < length rs"
  from assms obtain probs where
    rs: "rs = map (\<lambda>i. \<lparr>label = labels s ! i, score = py_round (probs ! i) 4\<rparr>)
               (take 5 (argsort_desc probs))"
    by (auto simp: handler_Results_iff handler_body_Inr_iff)
  from ij rs have j: "j < 5" "j < length probs" and i: "i < 5" "i < length probs"
    by (simp_all add: length_argsort_desc)
  have "probs ! (argsort_desc probs ! j) \<le> probs ! (argsort_desc probs ! i)"
    using ij j by (intro argsort_desc_sorted) simp_all
  then show "score (rs ! j) \<le> score (rs ! i)"
    using ij i j by (simp add: rs length_argsort_desc py_round_mono)
qed

theorem handler_scores_descending_witness:
  "handler run_a_externals pets_state stub_event = (Results run_a_results, pets_state) \<and>
   score (run_a_results ! 1) \<le> score (run_a_results ! 0)"
proof -
  have "(0::nat) < 1 \<and> 1 < length run_a_results"
    by simp
  with handler_scores_descending [OF stub_run_a] stub_run_a show ?thesis by blast
qed

text \<open>
  C4: in a successful invocation every score returned lies in the closed interval from 0
  to 1.
\<close>

theorem handler_scores_unit:
  assumes "handler ext s event = (Results rs, s')"
  shows "\<forall>r \<in> set rs. 0 \<le> score r \<and> score r \<le> 1"
proof
  fix r assume r: "r \<in> set rs"
  from assms obtain probs where
    cp: "classify_probs ext s event = Inr probs" and
    rs: "rs = map (\<lambda>i. \<lparr>label = labels s ! i, score = py_round (probs ! i) 4\<rparr>)
               (take 5 (argsort_desc probs))"
    by (auto simp: handler_Results_iff handler_body_Inr_iff)
  from r rs obtain i where i: "i \<in> set (take 5 (argsort_desc probs))"
    and sc: "score r = py_round (probs ! i) 4" by auto
  from i have "i \<in> set (argsort_desc probs)" by (rule in_set_takeD)
  then have "i < length probs" by (simp add: set_argsort_desc)
  then have "probs ! i \<in> set probs" by simp
  with classify_probs_unit [OF cp] have "0 \<le> probs ! i" "probs ! i \<le> 1"
    by (auto intro: less_imp_le)
  then show "0 \<le> score r \<and> score r \<le> 1"
    unfolding sc by (rule py_round_unit)
qed

theorem handler_scores_unit_witness:
  "handler run_a_externals pets_state stub_event = (Results run_a_results, pets_state) \<and>
   0 \<le> score (run_a_results ! 0) \<and> score (run_a_results ! 0) \<le> 1"
proof -
  have "run_a_results ! 0 \<in> set run_a_results"
    by simp
  with handler_scores_unit [OF stub_run_a] stub_run_a show ?thesis by blast
qed

text \<open>
  C5, as stated: in a successful invocation the scores returned, each rounded to 4 places,
  sum to at most 1. It fails: for the probabilities 0.33328, 0.33336 and 0.33336 the answer
  carries 0.3334, 0.3334 and 0.3333, which sum to 1.0001.
\<close>

theorem handler_scores_sum_counterexample:
  "handler run_b_externals pets_state stub_event = (Results run_b_results, pets_state) \<and>
   1 < sum_list (map score run_b_results)"
  using stub_run_b by simp

text \<open>
  C5, amended: in a successful invocation the scores returned sum to at most 1 plus
  0.00005 for each entry returned, hence to at most 1.00025.
\<close>

theorem handler_scores_sum:
  assumes "handler ext s event = (Results rs, s')"
  shows "sum_list (map score rs) \<le> 1 + real (length rs) * (5 / 100000) \<and>
         sum_list (map score rs) \<le> 1 + 25 / 100000"
proof -
  from handler_ResultsD [OF assms] obtain probs where
    cp: "classify_probs ext s event = Inr probs" and
    rs: "rs = map (\<lambda>i. \<lparr>label = labels s ! i, score = py_round (probs ! i) 4\<rparr>)
               (take 5 (argsort_desc probs))"
    by blast
  let ?idxs = "take 5 (argsort_desc probs)"
  have len: "length rs = length ?idxs" by (simp add: rs)
  have "sum_list (map score rs) = sum_list (map (\<lambda>i. py_round (probs ! i) 4) ?idxs)"
    by (simp add: rs comp_def)
  also have "\<dots> \<le> sum_list (map (\<lambda>i. probs ! i + 5 / 100000) ?idxs)"
  proof (rule sum_list_mono)
    fix i
    show "py_round (probs ! i) 4 \<le> probs ! i + 5 / 100000"
      using py_round_upper [of "probs ! i" 4] by simp
  qed
  also have "\<dots> = sum_list (map (\<lambda>i. probs ! i) ?idxs) + real (length ?idxs) * (5 / 100000)"
    by (rule sum_list_map_add_const)
  also have "sum_list (map (\<lambda>i. probs ! i) ?idxs) \<le> sum_list probs"
    using top5_indices_facts(1,2) classify_probs_unit [OF cp]
    by (intro sum_list_nth_subset) (auto intro: less_imp_le)
  also have "sum_list probs \<le> 1"
    by (rule classify_probs_sum [OF cp])
  finally have first: "sum_list (map score rs) \<le> 1 + real (length rs) * (5 / 100000)"
    by (simp add: len)
  have "real (length rs) \<le> 5"
    using top5_indices_facts(3) [of probs] by (simp add: len)
  then have "real (length rs) * (5 / 100000) \<le> 25 / 100000" by simp
  with first show ?thesis by linarith
qed

theorem handler_scores_sum_witness:
  "handler run_b_externals pets_state stub_event = (Results run_b_results, pets_state) \<and>
   sum_list (map score run_b_results) \<le> 1 + real (length run_b_results) * (5 / 100000) \<and>
   sum_list (map score run_b_results) \<le> 1 + 25 / 100000"
  by (rule conjI [OF stub_run_b handler_scores_sum [OF stub_run_b]])

text \<open>
  C6: whatever step of the handler fails (a missing request field, a base64 text or image
  bytes that do not decode, an error of the processor or of the model, or any other
  exception of the \<open>try\<close> block), the handler returns the error object carrying the text
  of the exception; and when the block succeeds it returns the results, not an error
  object.
\<close>

theorem handler_error_object:
  "(\<forall>e. handler_body ext s event = Inl e \<longrightarrow> fst (handler ext s event) = ErrorObj (str_exn e)) \<and>
   (\<forall>rs. handler_body ext s event = Inr rs \<longrightarrow> fst (handler ext s event) = Results rs) \<and>
   (\<forall>e. subscript event (lit ''input'') = Inl e \<longrightarrow>
      fst (handler ext s event) = ErrorObj (str_exn e)) \<and>
   (\<forall>inp e. subscript event (lit ''input'') = Inr inp \<and>
      subscript inp (lit ''image_base64'') = Inl e \<longrightarrow>
      fst (handler ext s event) = ErrorObj (str_exn e)) \<and>
   (\<forall>inp v e. subscript event (lit ''input'') = Inr inp \<and>
      subscript inp (lit ''image_base64'') = Inr v \<and> b64decode ext v = Inl e \<longrightarrow>
      fst (handler ext s event) = ErrorObj (str_exn e)) \<and>
   (\<forall>inp v bytes e. subscript event (lit ''input'') = Inr inp \<and>
      subscript inp (lit ''image_base64'') = Inr v \<and> b64decode ext v = Inr bytes \<and>
      image_open_rgb ext bytes = Inl e \<longrightarrow>
      fst (handler ext s event) = ErrorObj (str_exn e)) \<and>
   (\<forall>inp v bytes image p inputs m e. subscript event (lit ''input'') = Inr inp \<and>
      subscript inp (lit ''image_base64'') = Inr v \<and> b64decode ext v = Inr bytes \<and>
      image_open_rgb ext bytes = Inr image \<and> processor s = Some p \<and>
      call_processor ext p (map prompt (labels s)) image = Inr inputs \<and>
      model s = Some m \<and> run_model ext m inputs = Inl e \<longrightarrow>
      fst (handler ext s event) = ErrorObj (str_exn e))"
proof (intro conjI allI impI)
  fix e assume "handler_body ext s event = Inl e"
  then show "fst (handler ext s event) = ErrorObj (str_exn e)" by (simp add: handler_fst)
next
  fix rs assume "handler_body ext s event = Inr rs"
  then show "fst (handler ext s event) = Results rs" by (simp add: handler_fst)
next
  fix e assume "subscript event (lit ''input'') = Inl e"
  then have "classify_probs ext s event = Inl e"
    by (simp add: classify_probs_def try_bind_def)
  then show "fst (handler ext s event) = ErrorObj (str_exn e)"
    by (simp add: handler_fst handler_body_Inl_classify)
next
  fix inp e assume "subscript event (lit ''input'') = Inr inp \<and>
      subscript inp (lit ''image_base64'') = Inl e"
  then have "classify_probs ext s event = Inl e"
    by (simp add: classify_probs_def try_bind_def)
  then show "fst (handler ext s event) = ErrorObj (str_exn e)"
    by (simp add: handler_fst handler_body_Inl_classify)
next
  fix inp v e assume "subscript event (lit ''input'') = Inr inp \<and>
      subscript inp (lit ''image_base64'') = Inr v \<and> b64decode ext v = Inl e"
  then have "classify_probs ext s event = Inl e"
    by (simp add: classify_probs_def try_bind_def)
  then show "fst (handler ext s event) = ErrorObj (str_exn e)"
    by (simp add: handler_fst handler_body_Inl_classify)
next
  fix inp v bytes e assume "subscript event (lit ''input'') = Inr inp \<and>
      subscript inp (lit ''image_base64'') = Inr v \<and> b64decode ext v = Inr bytes \<and>
      image_open_rgb ext bytes = Inl e"
  then have "classify_probs ext s event = Inl e"
    by (simp add: classify_probs_def try_bind_def)
  then show "fst (handler ext s event) = ErrorObj (str_exn e)"
    by (simp add: handler_fst handler_body_Inl_classify)
next
  fix inp v bytes image p inputs m e assume "subscript event (lit ''input'') = Inr inp \<and>
      subscript inp (lit ''image_base64'') = Inr v \<and> b64decode ext v = Inr bytes \<and>
      image_open_rgb ext bytes = Inr image \<and> processor s = Some p \<and>
      call_processor ext p (map prompt (labels s)) image = Inr inputs \<and>
      model s = Some m \<and> run_model ext m inputs = Inl e"
  then have "classify_probs ext s event = Inl e"
    by (simp add: classify_probs_def try_bind_def)
  then show "fst (handler ext s event) = ErrorObj (str_exn e)"
    by (simp add: handler_fst handler_body_Inl_classify)
qed

theorem handler_error_object_witness:
  "subscript (PDict []) (lit ''input'') = Inl (KeyError (lit ''input'')) \<and>
   fst (handler run_a_externals pets_state (PDict [])) = ErrorObj (quoted (lit ''input''))"
proof -
  have h: "subscript (PDict []) (lit ''input'') = Inl (KeyError (lit ''input''))" by simp
  with handler_error_object [of run_a_externals pets_state "PDict []"]
  have "fst (handler run_a_externals pets_state (PDict [])) = ErrorObj (str_exn (KeyError (lit ''input'')))"
    by blast
  with h show ?thesis by simp
qed



text \<open>
  C8: the labels are read once, by the \<open>load_model\<close> that the worker runs before it
  serves; no invocation of the handler, successful or not, and so no sequence of
  invocations, changes the label list, the model or the processor.
\<close>

theorem globals_immutable:
  "(model (snd (handler ext s event)) = model s \<and>
    processor (snd (handler ext s event)) = processor s \<and>
    labels (snd (handler ext s event)) = labels s) \<and>
   (model (snd (serve ext s events)) = model s \<and>
    processor (snd (serve ext s events)) = processor s \<and>
    labels (snd (serve ext s events)) = labels s) \<and>
   (\<forall>rs s'. worker ext events = Inr (rs, s') \<longrightarrow>
      (\<exists>s0 lines.
         load_model ext (initial_state\<lparr>stdout := [lit ''Starting Runpod worker...'']\<rparr>) = Inr s0 \<and>
         open_readlines ext (lit ''labels.txt'') = Inr lines \<and>
         labels s0 = read_labels lines \<and>
         labels s' = labels s0 \<and> model s' = model s0 \<and> processor s' = processor s0))"
proof (intro conjI allI impI)
  fix rs s' assume w: "worker ext events = Inr (rs, s')"
  then obtain s0 where
    l: "load_model ext (initial_state\<lparr>stdout := [lit ''Starting Runpod worker...'']\<rparr>) = Inr s0"
    and sv: "serve ext (s0\<lparr>stdout := stdout s0 @ [lit ''Worker ready!'']\<rparr>) events = (rs, s')"
    unfolding worker_def try_bind_Inr_iff by auto
  from l obtain lines where
    f: "open_readlines ext (lit ''labels.txt'') = Inr lines" and ls: "labels s0 = read_labels lines"
    unfolding load_model_Inr_iff by auto
  from serve_globals [of ext "s0\<lparr>stdout := stdout s0 @ [lit ''Worker ready!'']\<rparr>" events] sv
  have "labels s' = labels s0" "model s' = model s0" "processor s' = processor s0"
    by simp_all
  with l f ls
  show "\<exists>s0 lines.
         load_model ext (initial_state\<lparr>stdout := [lit ''Starting Runpod worker...'']\<rparr>) = Inr s0 \<and>
         open_readlines ext (lit ''labels.txt'') = Inr lines \<and>
         labels s0 = read_labels lines \<and>
         labels s' = labels s0 \<and> model s' = model s0 \<and> processor s' = processor s0"
    by blast
qed (simp_all add: handler_globals serve_globals)

theorem globals_immutable_witness:
  "worker run_d_externals [stub_event, PDict []] =
     Inr ([Results run_a_results, ErrorObj (quoted (lit ''input''))], run_d_final) \<and>
   (\<exists>s0 lines.
      load_model run_d_externals (initial_state\<lparr>stdout := [lit ''Starting Runpod worker...'']\<rparr>)
        = Inr s0 \<and>
      open_readlines run_d_externals (lit ''labels.txt'') = Inr lines \<and>
      labels s0 = read_labels lines \<and>
      labels run_d_final = labels s0 \<and> model run_d_final = model s0 \<and>
      processor run_d_final = processor s0)"
  using globals_immutable [of run_d_externals run_d_loaded stub_event "[stub_event, PDict []]"]
    worker_run_d
  by blast

text \<open>
  C9, as stated: after \<open>load_model\<close> the label list has at least one label. It fails:
  for a label file of blank lines \<open>load_model\<close> completes with the empty list.
\<close>

theorem load_model_labels_counterexample:
  "map_sum id labels
     (load_model (stub_externals [[10], [32, 32, 10]] [] :: (unit, unit, nat list, unit) externals)
        initial_state) = Inr []"
  by (simp add: load_model_stub read_labels_def strip_examples)

text \<open>
  C9, amended: after \<open>load_model\<close> the label list is the stripped non-blank lines of the
  file; it is non-empty exactly when some line of the file has a character that is not
  white space; every label in it is a non-empty string; and it is the same list before
  every invocation of the handler.
\<close>

theorem load_model_labels:
  assumes "load_model ext s = Inr s'"
  shows "\<exists>lines. open_readlines ext (lit ''labels.txt'') = Inr lines \<and>
           labels s' = read_labels lines \<and>
           (labels s' \<noteq> [] \<longleftrightarrow> (\<exists>l \<in> set lines. \<exists>c \<in> set l. \<not> is_space c)) \<and>
           (\<forall>l \<in> set (labels s'). l \<noteq> []) \<and>
           (\<forall>events. labels (snd (serve ext s' events)) = labels s')"
proof -
  from assms obtain lines where
    f: "open_readlines ext (lit ''labels.txt'') = Inr lines" and ls: "labels s' = read_labels lines"
    unfolding load_model_Inr_iff by auto
  have "labels s' \<noteq> [] \<longleftrightarrow> (\<exists>l \<in> set lines. \<exists>c \<in> set l. \<not> is_space c)"
    by (simp only: ls read_labels_nonempty_iff)
  moreover have "\<forall>l \<in> set (labels s'). l \<noteq> []"
    using read_labels_members by (simp add: ls)
  moreover have "\<forall>events. labels (snd (serve ext s' events)) = labels s'"
    by (simp add: serve_globals)
  ultimately show ?thesis using f ls by blast
qed

theorem load_model_labels_witness:
  "load_model (stub_externals run_c_lines []) initial_state = Inr run_c_state \<and>
   (\<exists>lines. open_readlines (stub_externals run_c_lines [] :: (unit, unit, nat list, unit) externals)
              (lit ''labels.txt'') = Inr lines \<and>
           labels run_c_state = read_labels lines \<and>
           (labels run_c_state \<noteq> [] \<longleftrightarrow> (\<exists>l \<in> set lines. \<exists>c \<in> set l. \<not> is_space c)) \<and>
           (\<forall>l \<in> set (labels run_c_state). l \<noteq> []) \<and>
           (\<forall>events. labels (snd (serve (stub_externals run_c_lines []) run_c_state events))
              = labels run_c_state))"
  by (rule conjI [OF load_model_run_c load_model_labels [OF load_model_run_c]])

text \<open>
  C10: in a successful invocation each score returned is the softmax probability at the
  chosen position rounded to 4 decimal places, a multiple of 0.0001 within 0.00005 of the
  probability; so distinct probabilities can be returned as equal scores, as 0.33334 and
  0.3333 are, both as 0.3333.
\<close>

theorem handler_scores_rounded:
  "(\<forall>rs s'. handler ext s event = (Results rs, s') \<longrightarrow>
      (\<exists>probs. classify_probs ext s event = Inr probs \<and>
         map score rs = map (\<lambda>i. py_round (probs ! i) 4) (take 5 (argsort_desc probs)) \<and>
         (\<forall>i \<in> set (take 5 (argsort_desc probs)).
            \<bar>py_round (probs ! i) 4 - probs ! i\<bar> \<le> 5 / 100000 \<and>
            (\<exists>k::int. py_round (probs ! i) 4 = of_int k / 10000)))) \<and>
   (classify_probs run_a_externals pets_state stub_event
      = Inr [33336 / 100000, 33334 / 100000, 33330 / 100000] \<and>
    handler run_a_externals pets_state stub_event = (Results run_a_results, pets_state) \<and>
    (33334 / 100000 :: real) \<noteq> 33330 / 100000 \<and>
    \<bar>33334 / 100000 - 33330 / 100000 :: real\<bar> < 5 / 100000 \<and>
    score (run_a_results ! 1) = score (run_a_results ! 2) \<and>
    score (run_a_results ! 1) \<noteq> 33334 / 100000)"
proof (intro conjI allI impI)
  fix rs s' assume h: "handler ext s event = (Results rs, s')"
  from handler_ResultsD [OF h] obtain probs where
    cp: "classify_probs ext s event = Inr probs" and
    rs: "rs = map (\<lambda>i. \<lparr>label = labels s ! i, score = py_round (probs ! i) 4\<rparr>)
               (take 5 (argsort_desc probs))"
    by blast
  have sc: "map score rs = map (\<lambda>i. py_round (probs ! i) 4) (take 5 (argsort_desc probs))"
    by (simp add: rs comp_def)
  have near: "\<forall>i \<in> set (take 5 (argsort_desc probs)).
            \<bar>py_round (probs ! i) 4 - probs ! i\<bar> \<le> 5 / 100000 \<and>
            (\<exists>k::int. py_round (probs ! i) 4 = of_int k / 10000)"
  proof
    fix i
    have "\<bar>py_round (probs ! i) 4 - probs ! i\<bar> \<le> 5 / 100000"
      by (rule py_round_4_near)
    moreover have "\<exists>k::int. py_round (probs ! i) 4 = of_int k / 10000"
      by (simp add: py_round_def)
    ultimately show "\<bar>py_round (probs ! i) 4 - probs ! i\<bar> \<le> 5 / 100000 \<and>
            (\<exists>k::int. py_round (probs ! i) 4 = of_int k / 10000)" by blast
  qed
  from cp sc near
  show "\<exists>probs. classify_probs ext s event = Inr probs \<and>
         map score rs = map (\<lambda>i. py_round (probs ! i) 4) (take 5 (argsort_desc probs)) \<and>
         (\<forall>i \<in> set (take 5 (argsort_desc probs)).
            \<bar>py_round (probs ! i) 4 - probs ! i\<bar> \<le> 5 / 100000 \<and>
            (\<exists>k::int. py_round (probs ! i) 4 = of_int k / 10000))"
    by blast
next
  show "classify_probs run_a_externals pets_state stub_event
      = Inr [33336 / 100000, 33334 / 100000, 33330 / 100000]"
    by (simp add: stub_classify_probs softmax_def)
next
  show "handler run_a_externals pets_state stub_event = (Results run_a_results, pets_state)"
    by (rule stub_run_a)
qed simp_all

theorem handler_scores_rounded_witness:
  "handler run_a_externals pets_state stub_event = (Results run_a_results, pets_state) \<and>
   (\<exists>probs. classify_probs run_a_externals pets_state stub_event = Inr probs \<and>
      map score run_a_results = map (\<lambda>i. py_round (probs ! i) 4) (take 5 (argsort_desc probs)) \<and>
      (\<forall>i \<in> set (take 5 (argsort_desc probs)).
         \<bar>py_round (probs ! i) 4 - probs ! i\<bar> \<le> 5 / 100000 \<and>
         (\<exists>k::int. py_round (probs ! i) 4 = of_int k / 10000)))"
  using handler_scores_rounded [of run_a_externals pets_state stub_event] stub_run_a
  by blast

end
